theory Spec2Isabelle
  imports Complex_Main
begin

section \<open>Python values, exceptions and the request body\<close>

text \<open>
  The handlers of \<^verbatim>\<open>app.py\<close> move values between a JSON request body, the attributes
  of two ORM classes and a JSON response. A value is one of Python's JSON types, or a
  tuple: \<^verbatim>\<open>create_order\<close> builds tuples (a trailing comma after an expression).
\<close>

datatype pyval =
    PNone
  | PBool bool
  | PInt int
  | PFloat real
  | PStr string
  | PList "pyval list"
  | PTuple "pyval list"
  | PDict "(string \<times> pyval) list"

text \<open>
  The exceptions that the handlers can meet: a missing key, a wrong type, and the two
  families of database errors (a violated constraint, and everything else the database
  layer raises, such as a lost connection). A database error carries its message.
\<close>

datatype exc =
    KeyError string
  | TypeError string
  | IntegrityError string
  | OperationalError string

text \<open>
  \<^verbatim>\<open>str(e)\<close>. For a \<^verbatim>\<open>KeyError\<close> it is the \<^verbatim>\<open>repr\<close> of the key; every key the
  handlers look up is a literal of letters and underscores, whose \<^verbatim>\<open>repr\<close> is the key
  between single quotes.
\<close>

fun str_exc :: "exc \<Rightarrow> string" where
  "str_exc (KeyError k) = [CHR 0x27] @ k @ [CHR 0x27]"
| "str_exc (TypeError m) = m"
| "str_exc (IntegrityError m) = m"
| "str_exc (OperationalError m) = m"

text \<open>Truth value testing (\<^verbatim>\<open>not x\<close>, \<^verbatim>\<open>if x\<close>).\<close>

fun truthy :: "pyval \<Rightarrow> bool" where
  "truthy PNone = False"
| "truthy (PBool b) = b"
| "truthy (PInt i) = (i \<noteq> 0)"
| "truthy (PFloat x) = (x \<noteq> 0)"
| "truthy (PStr s) = (s \<noteq> [])"
| "truthy (PList xs) = (xs \<noteq> [])"
| "truthy (PTuple xs) = (xs \<noteq> [])"
| "truthy (PDict kvs) = (kvs \<noteq> [])"

text \<open>
  \<^verbatim>\<open>request.get_json()\<close>: the body of a request to these endpoints is a JSON object,
  a dictionary from keys to values. \<^verbatim>\<open>data[k]\<close> raises \<^verbatim>\<open>KeyError\<close> on a missing key,
  \<^verbatim>\<open>data.get(k)\<close> gives \<^verbatim>\<open>None\<close>.
\<close>

type_synonym json_object = "string \<rightharpoonup> pyval"

definition getitem :: "json_object \<Rightarrow> string \<Rightarrow> exc + pyval" where
  "getitem data k = (case data k of None \<Rightarrow> Inl (KeyError k) | Some v \<Rightarrow> Inr v)"

definition dict_get :: "json_object \<Rightarrow> string \<Rightarrow> pyval" where
  "dict_get data k = (case data k of None \<Rightarrow> PNone | Some v \<Rightarrow> v)"

subsection \<open>\<^verbatim>\<open>','.join(...)\<close>\<close>

fun type_name :: "pyval \<Rightarrow> string" where
  "type_name PNone = ''NoneType''"
| "type_name (PBool b) = ''bool''"
| "type_name (PInt i) = ''int''"
| "type_name (PFloat x) = ''float''"
| "type_name (PStr s) = ''str''"
| "type_name (PList xs) = ''list''"
| "type_name (PTuple xs) = ''tuple''"
| "type_name (PDict kvs) = ''dict''"

fun show_nat :: "nat \<Rightarrow> string" where
  "show_nat n =
     (if n < 10 then [''0123456789'' ! n]
      else show_nat (n div 10) @ [''0123456789'' ! (n mod 10)])"

text \<open>
  \<^verbatim>\<open>str.join\<close> wants every item of the sequence to be a string and raises at the first
  one that is not, naming its position and type.
\<close>

fun str_items :: "nat \<Rightarrow> pyval list \<Rightarrow> exc + string list" where
  "str_items i [] = Inr []"
| "str_items i (PStr s # vs) =
     (case str_items (Suc i) vs of Inl e \<Rightarrow> Inl e | Inr ss \<Rightarrow> Inr (s # ss))"
| "str_items i (v # vs) =
     Inl (TypeError (''sequence item '' @ show_nat i @ '': expected str instance, ''
                       @ type_name v @ '' found''))"

fun join_strs :: "string \<Rightarrow> string list \<Rightarrow> string" where
  "join_strs sep [] = []"
| "join_strs sep [s] = s"
| "join_strs sep (s # t # ts) = s @ sep @ join_strs sep (t # ts)"

text \<open>
  The argument of \<^verbatim>\<open>join\<close> is any iterable: a list or tuple gives its items, a string
  its characters, a dictionary its keys; anything else is a \<^verbatim>\<open>TypeError\<close>.
\<close>

definition str_join :: "string \<Rightarrow> pyval \<Rightarrow> exc + string" where
  "str_join sep v =
     (case v of
        PList xs \<Rightarrow>
          (case str_items 0 xs of Inl e \<Rightarrow> Inl e | Inr ss \<Rightarrow> Inr (join_strs sep ss))
      | PTuple xs \<Rightarrow>
          (case str_items 0 xs of Inl e \<Rightarrow> Inl e | Inr ss \<Rightarrow> Inr (join_strs sep ss))
      | PStr s \<Rightarrow> Inr (join_strs sep (map (\<lambda>c. [c]) s))
      | PDict kvs \<Rightarrow> Inr (join_strs sep (map fst kvs))
      | _ \<Rightarrow> Inl (TypeError ''can only join an iterable''))"

text \<open>Statements in sequence: the first exception raised ends the block.\<close>

definition bind_exc :: "exc + 'a \<Rightarrow> ('a \<Rightarrow> exc + 'b) \<Rightarrow> exc + 'b" where
  "bind_exc m k = (case m of Inl e \<Rightarrow> Inl e | Inr v \<Rightarrow> k v)"

section \<open>The two tables and the database server\<close>

text \<open>
  \<^verbatim>\<open>class MenuItem(db.Model)\<close> and \<^verbatim>\<open>class FoodOrder(db.Model)\<close>. A row holds a value
  of its column's type: \<^verbatim>\<open>String\<close> a string, \<^verbatim>\<open>Integer\<close> an integer, \<^verbatim>\<open>Float\<close> a
  number, \<^verbatim>\<open>Boolean\<close> a truth value. A column that is not declared
  \<^verbatim>\<open>nullable=False\<close> may also hold \<^verbatim>\<open>NULL\<close>. The primary key is assigned by the
  table's counter.
\<close>

record MenuItem =
  MenuItem_id :: nat
  MenuItem_name :: string
  MenuItem_description :: "string option"
  MenuItem_price :: real
  MenuItem_availability :: "bool option"
  MenuItem_sold_count :: "int option"

record FoodOrder =
  FoodOrder_id :: nat
  FoodOrder_customer_name :: string
  FoodOrder_dish_ids :: string
  FoodOrder_total_price :: int
  FoodOrder_order_status :: string

text \<open>
  The database server and its driver are not part of \<^verbatim>\<open>app.py\<close>, which only names
  them (a MySQL URL, line 13). What they decide is a parameter of the model:
  \<^item> which strings a comparison \<^verbatim>\<open>column = value\<close> takes as equal (the collation of
    the column);
  \<^item> what becomes of a value that is written to a column and is not of the column's
    type, or is beyond its length or range: it is converted, or refused with an
    exception (for a \<^verbatim>\<open>Float\<close> column this covers every number, since the column
    rounds);
  \<^item> the text of the exception raised for \<^verbatim>\<open>NULL\<close> in a column declared
    \<^verbatim>\<open>nullable=False\<close>.
\<close>

record server =
  collation :: "string \<Rightarrow> string \<Rightarrow> bool"
  convert_string :: "nat \<Rightarrow> pyval \<Rightarrow> exc + string option"
  convert_integer :: "pyval \<Rightarrow> exc + int option"
  convert_float :: "pyval \<Rightarrow> exc + real option"
  convert_boolean :: "pyval \<Rightarrow> exc + bool option"
  null_message :: "string \<Rightarrow> string"

record database =
  menu_item_table :: "MenuItem list"
  menu_item_auto_increment :: nat
  food_order_table :: "FoodOrder list"
  food_order_auto_increment :: nat
  server :: server

text \<open>
  Whether the database answers is a parameter of every handler: a query or a commit
  raises the exception given here, if any.
\<close>

record faults =
  query_fault :: "exc option"
  commit_fault :: "exc option"

definition no_faults :: faults where
  "no_faults = \<lparr>query_fault = None, commit_fault = None\<rparr>"

subsection \<open>Queries\<close>

definition MenuItem_query_all :: "faults \<Rightarrow> database \<Rightarrow> exc + MenuItem list" where
  "MenuItem_query_all f db =
     (case query_fault f of Some e \<Rightarrow> Inl e | None \<Rightarrow> Inr (menu_item_table db))"

definition MenuItem_query_get :: "faults \<Rightarrow> database \<Rightarrow> nat \<Rightarrow> exc + MenuItem option" where
  "MenuItem_query_get f db item_id =
     (case query_fault f of Some e \<Rightarrow> Inl e
      | None \<Rightarrow> Inr (find (\<lambda>r. MenuItem_id r = item_id) (menu_item_table db)))"

definition FoodOrder_query_all :: "faults \<Rightarrow> database \<Rightarrow> exc + FoodOrder list" where
  "FoodOrder_query_all f db =
     (case query_fault f of Some e \<Rightarrow> Inl e | None \<Rightarrow> Inr (food_order_table db))"

definition FoodOrder_query_get :: "faults \<Rightarrow> database \<Rightarrow> nat \<Rightarrow> exc + FoodOrder option" where
  "FoodOrder_query_get f db order_id =
     (case query_fault f of Some e \<Rightarrow> Inl e
      | None \<Rightarrow> Inr (find (\<lambda>r. FoodOrder_id r = order_id) (food_order_table db)))"

text \<open>
  \<^verbatim>\<open>filter_by(column=v)\<close> sends \<^verbatim>\<open>WHERE column = v\<close>: the rows are those whose
  column the server's collation takes as equal to \<^verbatim>\<open>v\<close>.
\<close>

definition FoodOrder_query_filter_by ::
  "faults \<Rightarrow> database \<Rightarrow> (FoodOrder \<Rightarrow> string) \<Rightarrow> string \<Rightarrow> exc + FoodOrder list" where
  "FoodOrder_query_filter_by f db column v =
     (case query_fault f of Some e \<Rightarrow> Inl e
      | None \<Rightarrow> Inr (filter (\<lambda>r. collation (server db) (column r) v) (food_order_table db)))"

subsection \<open>Writing a value to a column\<close>

text \<open>
  What the model fixes itself, for every server:
  \<^item> \<^verbatim>\<open>None\<close> is written as \<^verbatim>\<open>NULL\<close>;
  \<^item> the driver writes a tuple or list parameter as the parenthesised list of its
    items, so one of a single item is written as that item in parentheses, which SQL
    reads as the item;
  \<^item> a string within the declared length goes into a \<^verbatim>\<open>String\<close> column as it is, an
    integer within the range of a 32-bit \<^verbatim>\<open>INT\<close> into an \<^verbatim>\<open>Integer\<close> column, a
    truth value into a \<^verbatim>\<open>Boolean\<close> column.
  Everything else is the server's conversion. The \<^verbatim>\<open>Boolean\<close> type checks its value
  before the driver sees it, so no sequence is unwrapped there. Lengths count
  characters, which for ASCII text is the length of the string.
\<close>

fun bind_string :: "server \<Rightarrow> nat \<Rightarrow> pyval \<Rightarrow> exc + string option" where
  "bind_string sv n PNone = Inr None"
| "bind_string sv n (PStr s) =
     (if length s \<le> n then Inr (Some s) else convert_string sv n (PStr s))"
| "bind_string sv n (PTuple [v]) = bind_string sv n v"
| "bind_string sv n (PList [v]) = bind_string sv n v"
| "bind_string sv n v = convert_string sv n v"

fun bind_integer :: "server \<Rightarrow> pyval \<Rightarrow> exc + int option" where
  "bind_integer sv PNone = Inr None"
| "bind_integer sv (PInt i) =
     (if - (2 ^ 31) \<le> i \<and> i < 2 ^ 31 then Inr (Some i) else convert_integer sv (PInt i))"
| "bind_integer sv (PTuple [v]) = bind_integer sv v"
| "bind_integer sv (PList [v]) = bind_integer sv v"
| "bind_integer sv v = convert_integer sv v"

fun bind_float :: "server \<Rightarrow> pyval \<Rightarrow> exc + real option" where
  "bind_float sv PNone = Inr None"
| "bind_float sv (PTuple [v]) = bind_float sv v"
| "bind_float sv (PList [v]) = bind_float sv v"
| "bind_float sv v = convert_float sv v"

fun bind_boolean :: "server \<Rightarrow> pyval \<Rightarrow> exc + bool option" where
  "bind_boolean sv PNone = Inr None"
| "bind_boolean sv (PBool b) = Inr (Some b)"
| "bind_boolean sv v = convert_boolean sv v"

text \<open>
  The column declarations decide two things more. A column with \<^verbatim>\<open>nullable=False\<close>
  refuses \<^verbatim>\<open>NULL\<close>. On insertion, a column with a \<^verbatim>\<open>default\<close> whose attribute is
  \<^verbatim>\<open>None\<close> is left out of the statement and takes its default.
\<close>

definition not_null :: "server \<Rightarrow> string \<Rightarrow> exc + 'a option \<Rightarrow> exc + 'a" where
  "not_null sv column r =
     (case r of
        Inl e \<Rightarrow> Inl e
      | Inr None \<Rightarrow> Inl (IntegrityError (null_message sv column))
      | Inr (Some x) \<Rightarrow> Inr x)"

definition column_default :: "pyval \<Rightarrow> pyval \<Rightarrow> pyval" where
  "column_default d v = (if v = PNone then d else v)"

subsection \<open>The session: one pending change, flushed by commit\<close>

text \<open>
  Each handler that writes registers one change with the session before it commits:
  \<^verbatim>\<open>db.session.add(obj)\<close>, \<^verbatim>\<open>db.session.delete(obj)\<close>, or attribute assignments on
  an object that a query loaded. The change carries the Python values of the
  attributes; the flush writes them to the columns.
\<close>

datatype pending =
    Add_MenuItem pyval pyval pyval pyval pyval
  | Dirty_MenuItem nat pyval pyval pyval pyval pyval
  | Delete_MenuItem nat
  | Add_FoodOrder pyval pyval pyval pyval
  | Dirty_FoodOrder nat pyval

fun flush :: "pending \<Rightarrow> database \<Rightarrow> exc + database" where
  "flush (Add_MenuItem name description price availability sold_count) db =
     bind_exc (not_null (server db) ''name'' (bind_string (server db) 255 name)) (\<lambda>name_col.
     bind_exc (bind_string (server db) 500 description) (\<lambda>description_col.
     bind_exc (not_null (server db) ''price'' (bind_float (server db) price)) (\<lambda>price_col.
     bind_exc (bind_boolean (server db) (column_default (PBool True) availability))
       (\<lambda>availability_col.
     bind_exc (bind_integer (server db) (column_default (PInt 0) sold_count))
       (\<lambda>sold_count_col.
       Inr (db\<lparr>menu_item_table := menu_item_table db @
                  [\<lparr>MenuItem_id = menu_item_auto_increment db,
                    MenuItem_name = name_col,
                    MenuItem_description = description_col,
                    MenuItem_price = price_col,
                    MenuItem_availability = availability_col,
                    MenuItem_sold_count = sold_count_col\<rparr>],
               menu_item_auto_increment := Suc (menu_item_auto_increment db)\<rparr>))))))"
| "flush (Dirty_MenuItem item_id name description price availability sold_count) db =
     bind_exc (not_null (server db) ''name'' (bind_string (server db) 255 name)) (\<lambda>name_col.
     bind_exc (bind_string (server db) 500 description) (\<lambda>description_col.
     bind_exc (not_null (server db) ''price'' (bind_float (server db) price)) (\<lambda>price_col.
     bind_exc (bind_boolean (server db) availability) (\<lambda>availability_col.
     bind_exc (bind_integer (server db) sold_count) (\<lambda>sold_count_col.
       Inr (db\<lparr>menu_item_table :=
                  map (\<lambda>r. if MenuItem_id r = item_id
                            then r\<lparr>MenuItem_name := name_col,
                                   MenuItem_description := description_col,
                                   MenuItem_price := price_col,
                                   MenuItem_availability := availability_col,
                                   MenuItem_sold_count := sold_count_col\<rparr>
                            else r) (menu_item_table db)\<rparr>))))))"
| "flush (Delete_MenuItem item_id) db =
     Inr (db\<lparr>menu_item_table := filter (\<lambda>r. MenuItem_id r \<noteq> item_id) (menu_item_table db)\<rparr>)"
| "flush (Add_FoodOrder customer_name dish_ids total_price order_status) db =
     bind_exc (not_null (server db) ''customer_name''
                 (bind_string (server db) 255 customer_name)) (\<lambda>customer_name_col.
     bind_exc (not_null (server db) ''dish_ids'' (bind_string (server db) 255 dish_ids))
       (\<lambda>dish_ids_col.
     bind_exc (not_null (server db) ''total_price'' (bind_integer (server db) total_price))
       (\<lambda>total_price_col.
     bind_exc (not_null (server db) ''order_status''
                 (bind_string (server db) 50 (column_default (PStr ''received'') order_status)))
       (\<lambda>order_status_col.
       Inr (db\<lparr>food_order_table := food_order_table db @
                  [\<lparr>FoodOrder_id = food_order_auto_increment db,
                    FoodOrder_customer_name = customer_name_col,
                    FoodOrder_dish_ids = dish_ids_col,
                    FoodOrder_total_price = total_price_col,
                    FoodOrder_order_status = order_status_col\<rparr>],
               food_order_auto_increment := Suc (food_order_auto_increment db)\<rparr>)))))"
| "flush (Dirty_FoodOrder order_id order_status) db =
     bind_exc (not_null (server db) ''order_status''
                 (bind_string (server db) 50 order_status)) (\<lambda>order_status_col.
       Inr (db\<lparr>food_order_table :=
                  map (\<lambda>r. if FoodOrder_id r = order_id
                            then r\<lparr>FoodOrder_order_status := order_status_col\<rparr>
                            else r) (food_order_table db)\<rparr>))"

text \<open>
  \<^verbatim>\<open>db.session.commit()\<close>: the flush and the commit either both happen, giving the new
  database, or an exception is raised and the database keeps its rows (the transaction
  is rolled back, by the handler or when the request's session is removed).
\<close>

definition commit :: "faults \<Rightarrow> pending \<Rightarrow> database \<Rightarrow> exc + database" where
  "commit f p db = (case commit_fault f of Some e \<Rightarrow> Inl e | None \<Rightarrow> flush p db)"

section \<open>The handlers\<close>

text \<open>
  A handler takes the database, its path parameter and request body, and the faults of
  the database during the request. It returns a response (JSON body and status code), or
  the exception that leaves the function uncaught, together with the database after
  the request.
\<close>

type_synonym response = "pyval \<times> nat"

text \<open>
  \<^verbatim>\<open>try: ... except Exception as e: return jsonify({'error': str(e)}), status\<close>
  around a whole handler body, and a body with no such guard.
\<close>

definition except_Exception ::
  "nat \<Rightarrow> database \<Rightarrow> exc + (response \<times> database) \<Rightarrow> (exc + response) \<times> database" where
  "except_Exception status db r =
     (case r of
        Inr (resp, db') \<Rightarrow> (Inr resp, db')
      | Inl e \<Rightarrow> (Inr (PDict [(''error'', PStr (str_exc e))], status), db))"

definition uncaught ::
  "database \<Rightarrow> exc + (response \<times> database) \<Rightarrow> (exc + response) \<times> database" where
  "uncaught db r =
     (case r of
        Inr (resp, db') \<Rightarrow> (Inr resp, db')
      | Inl e \<Rightarrow> (Inl e, db))"

definition hello_world :: "database \<Rightarrow> (exc + response) \<times> database" where
  "hello_world db = (Inr (PStr ''Hello, World!'', 200), db)"

subsection \<open>Menu items\<close>

definition add_menu_item_try ::
  "database \<Rightarrow> json_object \<Rightarrow> faults \<Rightarrow> exc + (response \<times> database)" where
  "add_menu_item_try db data f =
     bind_exc (getitem data ''name'') (\<lambda>name.
     bind_exc (getitem data ''description'') (\<lambda>description.
     bind_exc (getitem data ''price'') (\<lambda>price.
     bind_exc (getitem data ''availability'') (\<lambda>availability.
     bind_exc (getitem data ''sold_count'') (\<lambda>sold_count.
     bind_exc (commit f (Add_MenuItem name description price availability sold_count) db)
       (\<lambda>db'. Inr ((PDict [(''message'', PStr ''Menu item added successfully'')], 201),
                   db')))))))"

definition add_menu_item ::
  "database \<Rightarrow> json_object \<Rightarrow> faults \<Rightarrow> (exc + response) \<times> database" where
  "add_menu_item db data f = except_Exception 400 db (add_menu_item_try db data f)"

text \<open>A column read back is a Python value again: \<^verbatim>\<open>NULL\<close> is \<^verbatim>\<open>None\<close>.\<close>

definition py_string :: "string option \<Rightarrow> pyval" where
  "py_string c = (case c of None \<Rightarrow> PNone | Some s \<Rightarrow> PStr s)"

definition py_boolean :: "bool option \<Rightarrow> pyval" where
  "py_boolean c = (case c of None \<Rightarrow> PNone | Some b \<Rightarrow> PBool b)"

definition py_integer :: "int option \<Rightarrow> pyval" where
  "py_integer c = (case c of None \<Rightarrow> PNone | Some i \<Rightarrow> PInt i)"

definition menu_item_dict :: "MenuItem \<Rightarrow> pyval" where
  "menu_item_dict item =
     PDict [(''id'', PInt (int (MenuItem_id item))),
            (''name'', PStr (MenuItem_name item)),
            (''description'', py_string (MenuItem_description item)),
            (''price'', PFloat (MenuItem_price item)),
            (''availability'', py_boolean (MenuItem_availability item)),
            (''sold_count'', py_integer (MenuItem_sold_count item))]"

definition get_menu_items_try :: "database \<Rightarrow> faults \<Rightarrow> exc + (response \<times> database)" where
  "get_menu_items_try db f =
     bind_exc (MenuItem_query_all f db) (\<lambda>menu_items.
     let menu_items_list =
           foldl (\<lambda>menu_items_list item. menu_items_list @ [menu_item_dict item])
             [] menu_items
     in Inr ((PList menu_items_list, 200), db))"

definition get_menu_items :: "database \<Rightarrow> faults \<Rightarrow> (exc + response) \<times> database" where
  "get_menu_items db f = except_Exception 500 db (get_menu_items_try db f)"

definition update_menu_item_try ::
  "database \<Rightarrow> nat \<Rightarrow> json_object \<Rightarrow> faults \<Rightarrow> exc + (response \<times> database)" where
  "update_menu_item_try db item_id data f =
     bind_exc (getitem data ''name'') (\<lambda>name.
     bind_exc (getitem data ''description'') (\<lambda>description.
     bind_exc (getitem data ''price'') (\<lambda>price.
     bind_exc (getitem data ''availability'') (\<lambda>availability.
     bind_exc (getitem data ''sold_count'') (\<lambda>sold_count.
     bind_exc (MenuItem_query_get f db item_id) (\<lambda>found.
       (case found of
          None \<Rightarrow> Inr ((PDict [(''error'', PStr ''Menu item not found'')], 404), db)
        | Some menu_item \<Rightarrow>
            bind_exc (commit f (Dirty_MenuItem (MenuItem_id menu_item)
                                  name description price availability sold_count) db)
              (\<lambda>db'. Inr ((PDict [(''message'', PStr ''Menu item updated successfully'')],
                           200), db')))))))))"

definition update_menu_item ::
  "database \<Rightarrow> nat \<Rightarrow> json_object \<Rightarrow> faults \<Rightarrow> (exc + response) \<times> database" where
  "update_menu_item db item_id data f =
     except_Exception 400 db (update_menu_item_try db item_id data f)"

definition delete_menu_item_try ::
  "database \<Rightarrow> nat \<Rightarrow> faults \<Rightarrow> exc + (response \<times> database)" where
  "delete_menu_item_try db item_id f =
     bind_exc (MenuItem_query_get f db item_id) (\<lambda>found.
       (case found of
          None \<Rightarrow> Inr ((PDict [(''error'', PStr ''Menu item not found'')], 404), db)
        | Some menu_item \<Rightarrow>
            bind_exc (commit f (Delete_MenuItem (MenuItem_id menu_item)) db)
              (\<lambda>db'. Inr ((PDict [(''message'', PStr ''Menu item deleted successfully'')],
                           200), db'))))"

definition delete_menu_item ::
  "database \<Rightarrow> nat \<Rightarrow> faults \<Rightarrow> (exc + response) \<times> database" where
  "delete_menu_item db item_id f =
     except_Exception 400 db (delete_menu_item_try db item_id f)"

subsection \<open>Orders\<close>

text \<open>
  \<^verbatim>\<open>create_order\<close> reads the body outside any \<^verbatim>\<open>try\<close>; only the commit is guarded,
  and its \<^verbatim>\<open>except\<close> rolls back. The two assignments that end in a comma bind
  one-element tuples.
\<close>

definition create_order ::
  "database \<Rightarrow> json_object \<Rightarrow> faults \<Rightarrow> (exc + response) \<times> database" where
  "create_order db data f =
     uncaught db
      (bind_exc (getitem data ''dish_ids'') (\<lambda>ids.
       bind_exc (str_join '','' ids) (\<lambda>dish_ids_str.
       bind_exc (getitem data ''customer_name'') (\<lambda>customer_name.
       let dish_ids = PTuple [PStr dish_ids_str] in
       bind_exc (getitem data ''total_price'') (\<lambda>price.
       let total_price = PTuple [price];
           order_status = PStr ''received''
       in if \<not> truthy customer_name \<or> \<not> truthy dish_ids
          then Inr ((PDict [(''error'', PStr ''Customer name and item IDs are required'')],
                     400), db)
          else (case commit f (Add_FoodOrder customer_name dish_ids total_price
                                 order_status) db of
                  Inr db' \<Rightarrow>
                    Inr ((PDict [(''message'', PStr ''Order created successfully'')], 201),
                         db')
                | Inl e \<Rightarrow>
                    Inr ((PDict [(''error'', PStr (str_exc e))], 500), db)))))))"

text \<open>
  \<^verbatim>\<open>update_order_status\<close> guards the commit only, and answers its failure with a
  fixed message.
\<close>

definition update_order_status ::
  "database \<Rightarrow> nat \<Rightarrow> json_object \<Rightarrow> faults \<Rightarrow> (exc + response) \<times> database" where
  "update_order_status db order_id data f =
     uncaught db
      (let new_status = dict_get data ''order_status'' in
       bind_exc (FoodOrder_query_get f db order_id) (\<lambda>found.
         (case found of
            None \<Rightarrow> Inr ((PDict [(''error'', PStr ''Order not found'')], 404), db)
          | Some order \<Rightarrow>
              (case commit f (Dirty_FoodOrder (FoodOrder_id order) new_status) db of
                 Inr db' \<Rightarrow>
                   Inr ((PDict [(''message'', PStr ''Order status updated successfully'')],
                         200), db')
               | Inl e \<Rightarrow>
                   Inr ((PDict [(''error'', PStr ''Failed to update order status'')], 500),
                        db)))))"

definition order_dict :: "FoodOrder \<Rightarrow> pyval" where
  "order_dict order =
     PDict [(''id'', PInt (int (FoodOrder_id order))),
            (''customer_name'', PStr (FoodOrder_customer_name order)),
            (''order_status'', PStr (FoodOrder_order_status order))]"

definition get_orders_by_customer ::
  "database \<Rightarrow> string \<Rightarrow> faults \<Rightarrow> (exc + response) \<times> database" where
  "get_orders_by_customer db customer_name f =
     uncaught db
      (bind_exc (FoodOrder_query_filter_by f db FoodOrder_customer_name customer_name)
         (\<lambda>orders.
           if orders = []
           then Inr ((PDict [(''message'', PStr ''No orders found for this customer'')], 200),
                     db)
           else let orders_data = map order_dict orders
                in Inr ((PDict [(''orders'', PList orders_data)], 200), db)))"

text \<open>
  The route always passes a string; the function also answers \<^verbatim>\<open>None\<close>, with every
  order.
\<close>

definition get_orders_by_status ::
  "database \<Rightarrow> string option \<Rightarrow> faults \<Rightarrow> (exc + response) \<times> database" where
  "get_orders_by_status db order_status f =
     uncaught db
      (bind_exc
         (case order_status of
            Some s \<Rightarrow> FoodOrder_query_filter_by f db FoodOrder_order_status s
          | None \<Rightarrow> FoodOrder_query_all f db)
         (\<lambda>orders.
           if orders = []
           then Inr ((PDict [(''message'', PStr ''No orders found with this status'')], 200),
                     db)
           else let orders_data = map order_dict orders
                in Inr ((PDict [(''orders'', PList orders_data)], 200), db)))"

text \<open>The status code of an answer, when the handler returns one.\<close>

definition status_code :: "(exc + response) \<times> database \<Rightarrow> nat option" where
  "status_code r = (case fst r of Inl e \<Rightarrow> None | Inr (body, status) \<Rightarrow> Some status)"

text \<open>The number that a Python \<^verbatim>\<open>int\<close> or \<^verbatim>\<open>float\<close> stands for.\<close>

definition py_number :: "pyval \<Rightarrow> real option" where
  "py_number v =
     (case v of PInt i \<Rightarrow> Some (real_of_int i) | PFloat x \<Rightarrow> Some x | _ \<Rightarrow> None)"

section \<open>Primary keys\<close>

text \<open>
  \<^verbatim>\<open>id\<close> is the primary key of both tables: no two rows of a table share it, and the
  counter is above every id given out.
\<close>

definition wf_database :: "database \<Rightarrow> bool" where
  "wf_database db \<longleftrightarrow>
     distinct (map MenuItem_id (menu_item_table db))
     \<and> (\<forall>r\<in>set (menu_item_table db). MenuItem_id r < menu_item_auto_increment db)
     \<and> distinct (map FoodOrder_id (food_order_table db))
     \<and> (\<forall>r\<in>set (food_order_table db). FoodOrder_id r < food_order_auto_increment db)"

section \<open>A sample server and sample databases\<close>

text \<open>
  A server to evaluate the handlers on. Its rules are rules of MySQL in strict mode with
  its Python drivers: strings are compared without regard to the case of ASCII letters;
  an integer or a truth value is written into a \<^verbatim>\<open>String\<close> column as its decimal
  digits; a string of decimal digits or a truth value is written into an
  \<^verbatim>\<open>Integer\<close> column as the number; a number is written into a \<^verbatim>\<open>Float\<close> column;
  0 and 1 are written into a \<^verbatim>\<open>Boolean\<close> column as the truth values; a string beyond
  the length of its column and an integer beyond the range of its column are refused.
  It is a sample and not the whole of MySQL: a value of another kind, which MySQL may
  convert as well, is refused here, and the \<^verbatim>\<open>Float\<close> column gives every number back
  as it was written. No theorem depends on these two simplifications.
\<close>

definition ascii_lower :: "char \<Rightarrow> char" where
  "ascii_lower c =
     (case map_of (zip ''ABCDEFGHIJKLMNOPQRSTUVWXYZ'' ''abcdefghijklmnopqrstuvwxyz'') c of
        Some l \<Rightarrow> l
      | None \<Rightarrow> c)"

definition show_int :: "int \<Rightarrow> string" where
  "show_int i = (if i < 0 then ''-'' @ show_nat (nat (- i)) else show_nat (nat i))"

definition digit_of :: "char \<Rightarrow> nat option" where
  "digit_of c = map_of (zip ''0123456789'' [0, 1, 2, 3, 4, 5, 6, 7, 8, 9]) c"

fun read_digits :: "nat \<Rightarrow> string \<Rightarrow> nat option" where
  "read_digits acc [] = Some acc"
| "read_digits acc (c # cs) =
     (case digit_of c of None \<Rightarrow> None | Some d \<Rightarrow> read_digits (10 * acc + d) cs)"

definition read_nat :: "string \<Rightarrow> nat option" where
  "read_nat s = (if s = [] then None else read_digits 0 s)"

definition sample_server :: server where
  "sample_server =
     \<lparr>collation = (\<lambda>a b. map ascii_lower a = map ascii_lower b),
      convert_string = (\<lambda>n v.
        case v of
          PInt i \<Rightarrow>
            if length (show_int i) \<le> n then Inr (Some (show_int i))
            else Inl (OperationalError ''Data too long'')
        | PBool b \<Rightarrow> Inr (Some (if b then ''1'' else ''0''))
        | PStr s \<Rightarrow> Inl (OperationalError ''Data too long'')
        | _ \<Rightarrow> Inl (OperationalError ''Incorrect string value'')),
      convert_integer = (\<lambda>v.
        case v of
          PStr s \<Rightarrow>
            (case read_nat s of
               Some n \<Rightarrow>
                 if int n < 2 ^ 31 then Inr (Some (int n))
                 else Inl (OperationalError ''Out of range value'')
             | None \<Rightarrow> Inl (OperationalError ''Incorrect integer value''))
        | PBool b \<Rightarrow> Inr (Some (if b then 1 else 0))
        | PInt i \<Rightarrow> Inl (OperationalError ''Out of range value'')
        | _ \<Rightarrow> Inl (OperationalError ''Incorrect integer value'')),
      convert_float = (\<lambda>v.
        case v of
          PFloat x \<Rightarrow> Inr (Some x)
        | PInt i \<Rightarrow> Inr (Some (real_of_int i))
        | _ \<Rightarrow> Inl (OperationalError ''Incorrect float value'')),
      convert_boolean = (\<lambda>v.
        case v of
          PInt i \<Rightarrow>
            if i = 0 then Inr (Some False)
            else if i = 1 then Inr (Some True)
            else Inl (TypeError ''Not a boolean value'')
        | _ \<Rightarrow> Inl (TypeError ''Not a boolean value'')),
      null_message = (\<lambda>column.
        ''Column '' @ [CHR 0x27] @ column @ [CHR 0x27] @ '' cannot be null'')\<rparr>"

definition db_empty :: database where
  "db_empty = \<lparr>menu_item_table = [], menu_item_auto_increment = 1,
               food_order_table = [], food_order_auto_increment = 1,
               server = sample_server\<rparr>"

definition db_sample :: database where
  "db_sample =
     \<lparr>menu_item_table =
        [\<lparr>MenuItem_id = 1, MenuItem_name = ''Dosa'',
          MenuItem_description = Some ''Crisp'', MenuItem_price = 80,
          MenuItem_availability = Some True, MenuItem_sold_count = Some 3\<rparr>],
      menu_item_auto_increment = 2,
      food_order_table =
        [\<lparr>FoodOrder_id = 1, FoodOrder_customer_name = ''Asha'',
          FoodOrder_dish_ids = ''1'', FoodOrder_total_price = 80,
          FoodOrder_order_status = ''received''\<rparr>],
      food_order_auto_increment = 2,
      server = sample_server\<rparr>"

section \<open>Basic facts\<close>

lemma bind_exc_Inl [simp]: "bind_exc (Inl e) k = Inl e"
  by (simp add: bind_exc_def)

lemma bind_exc_Inr [simp]: "bind_exc (Inr v) k = k v"
  by (simp add: bind_exc_def)

lemma getitem_Some [simp]: "data k = Some v \<Longrightarrow> getitem data k = Inr v"
  by (simp add: getitem_def)

lemma getitem_None [simp]: "data k = None \<Longrightarrow> getitem data k = Inl (KeyError k)"
  by (simp add: getitem_def)

lemma uncaught_Inl [simp]: "uncaught db (Inl e) = (Inl e, db)"
  by (simp add: uncaught_def)

lemma uncaught_Inr [simp]: "uncaught db (Inr (resp, db')) = (Inr resp, db')"
  by (simp add: uncaught_def)

lemma except_Exception_Inl [simp]:
  "except_Exception status db (Inl e) =
     (Inr (PDict [(''error'', PStr (str_exc e))], status), db)"
  by (simp add: except_Exception_def)

lemma except_Exception_Inr [simp]:
  "except_Exception status db (Inr (resp, db')) = (Inr resp, db')"
  by (simp add: except_Exception_def)

text \<open>Joining a list of strings never raises.\<close>

lemma str_items_strings: "str_items i (map PStr ids) = Inr ids"
  by (induction ids arbitrary: i) simp_all

lemma str_join_list_of_strings [simp]:
  "str_join sep (PList (map PStr ids)) = Inr (join_strs sep ids)"
  by (simp add: str_join_def str_items_strings)

lemma commit_no_fault [simp]: "commit_fault f = None \<Longrightarrow> commit f p db = flush p db"
  by (simp add: commit_def)

lemma commit_fault_raises [simp]: "commit_fault f = Some e \<Longrightarrow> commit f p db = Inl e"
  by (simp add: commit_def)

lemma truthy_not_None: "truthy v \<Longrightarrow> v \<noteq> PNone"
  by auto

lemma find_absent: "\<forall>r\<in>set rows. \<not> P r \<Longrightarrow> find P rows = None"
  by (simp add: find_None_iff)

lemma find_present: "\<exists>r\<in>set rows. P r \<Longrightarrow> \<exists>r. find P rows = Some r \<and> P r"
  by (cases "find P rows") (auto simp: find_None_iff find_Some_iff)

lemma not_null_Some [simp]: "not_null sv column (Inr (Some x)) = Inr x"
  by (simp add: not_null_def)

lemma not_null_None [simp]:
  "not_null sv column (Inr None) = Inl (IntegrityError (null_message sv column))"
  by (simp add: not_null_def)

lemma not_null_Inl [simp]: "not_null sv column (Inl e) = Inl e"
  by (simp add: not_null_def)

section \<open>The handlers keep the primary keys\<close>

lemma MenuItem_id_update:
  "MenuItem_id \<circ> (\<lambda>r. if P r then r\<lparr>MenuItem_name := a, MenuItem_description := b,
      MenuItem_price := c, MenuItem_availability := d, MenuItem_sold_count := e\<rparr> else r)
   = MenuItem_id"
  by (simp add: fun_eq_iff)

lemma FoodOrder_id_update:
  "FoodOrder_id \<circ> (\<lambda>r. if P r then r\<lparr>FoodOrder_order_status := s\<rparr> else r)
   = FoodOrder_id"
  by (simp add: fun_eq_iff)

lemma flush_wf:
  assumes "wf_database db" and "flush p db = Inr db'"
  shows "wf_database db'"
proof (cases p)
  case (Add_MenuItem name description price availability sold_count)
  with assms show ?thesis
    by (fastforce simp: wf_database_def less_Suc_eq bind_exc_def split: sum.splits)
next
  case (Dirty_MenuItem item_id name description price availability sold_count)
  with assms show ?thesis
    by (auto simp: wf_database_def MenuItem_id_update bind_exc_def split: sum.splits)
next
  case (Delete_MenuItem item_id)
  with assms show ?thesis
    by (auto simp: wf_database_def distinct_map_filter)
next
  case (Add_FoodOrder customer_name dish_ids total_price order_status)
  with assms show ?thesis
    by (fastforce simp: wf_database_def less_Suc_eq bind_exc_def split: sum.splits)
next
  case (Dirty_FoodOrder order_id order_status)
  with assms show ?thesis
    by (auto simp: wf_database_def FoodOrder_id_update bind_exc_def split: sum.splits)
qed

lemma commit_wf: "wf_database db \<Longrightarrow> commit f p db = Inr db' \<Longrightarrow> wf_database db'"
  by (cases "commit_fault f") (auto dest: flush_wf)

lemma add_menu_item_wf:
  "wf_database db \<Longrightarrow> wf_database (snd (add_menu_item db data f))"
  by (auto simp: add_menu_item_def add_menu_item_try_def except_Exception_def bind_exc_def
           split: sum.splits dest: commit_wf)

lemma update_menu_item_wf:
  "wf_database db \<Longrightarrow> wf_database (snd (update_menu_item db item_id data f))"
  by (auto simp: update_menu_item_def update_menu_item_try_def except_Exception_def
             bind_exc_def
           split: sum.splits option.splits dest: commit_wf)

lemma delete_menu_item_wf:
  "wf_database db \<Longrightarrow> wf_database (snd (delete_menu_item db item_id f))"
  by (auto simp: delete_menu_item_def delete_menu_item_try_def except_Exception_def
             bind_exc_def
           split: sum.splits option.splits dest: commit_wf)

lemma create_order_wf:
  "wf_database db \<Longrightarrow> wf_database (snd (create_order db data f))"
  by (auto simp: create_order_def uncaught_def bind_exc_def Let_def
           split: sum.splits if_splits dest: commit_wf)

lemma update_order_status_wf:
  "wf_database db \<Longrightarrow> wf_database (snd (update_order_status db order_id data f))"
  by (auto simp: update_order_status_def uncaught_def bind_exc_def Let_def
           split: sum.splits option.splits dest: commit_wf)

lemma wf_database_sample: "wf_database db_empty \<and> wf_database db_sample"
  by (simp add: wf_database_def db_empty_def db_sample_def)

section \<open>Creating an order\<close>

text \<open>
  C1. A POST /orders request whose body lacks the key customer_name or the key dish_ids
  is meant to be answered with status 400 and no order row. The handler subscripts the
  body before its check and outside any \<^verbatim>\<open>try\<close>: for every such body it returns no
  response at all, an exception leaves the function (\<^verbatim>\<open>KeyError\<close>, or the
  \<^verbatim>\<open>TypeError\<close> of the join), and the database is as before.
\<close>

theorem create_order_missing_key_raises:
  assumes "data ''customer_name'' = None \<or> data ''dish_ids'' = None"
  shows "(\<exists>e. fst (create_order db data f) = Inl e) \<and> snd (create_order db data f) = db"
proof (cases "data ''dish_ids''")
  case None
  then show ?thesis by (simp add: create_order_def)
next
  case (Some ids)
  with assms have cn: "data ''customer_name'' = None" by simp
  show ?thesis
  proof (cases "str_join '','' ids")
    case (Inl e)
    with Some show ?thesis by (simp add: create_order_def)
  next
    case (Inr s)
    with Some cn show ?thesis by (simp add: create_order_def)
  qed
qed

theorem create_order_missing_key_raises_witness:
  "([''dish_ids'' \<mapsto> PList [PStr ''1'', PStr ''2''], ''total_price'' \<mapsto> PInt 10]
      ''customer_name'' = None
     \<or> [''dish_ids'' \<mapsto> PList [PStr ''1'', PStr ''2''], ''total_price'' \<mapsto> PInt 10]
          ''dish_ids'' = None)
   \<and> fst (create_order db_empty
             [''dish_ids'' \<mapsto> PList [PStr ''1'', PStr ''2''], ''total_price'' \<mapsto> PInt 10]
             no_faults) = Inl (KeyError ''customer_name'')
   \<and> snd (create_order db_empty
             [''dish_ids'' \<mapsto> PList [PStr ''1'', PStr ''2''], ''total_price'' \<mapsto> PInt 10]
             no_faults) = db_empty"
  using create_order_missing_key_raises
          [of "[''dish_ids'' \<mapsto> PList [PStr ''1'', PStr ''2''], ''total_price'' \<mapsto> PInt 10]"
              db_empty no_faults]
  by (simp add: create_order_def str_join_def)




text \<open>
  With the three keys in the body and a dish_ids that \<^verbatim>\<open>join\<close> accepts, an empty
  customer_name reaches the check of line 170 and is answered with 400.
\<close>

lemma create_order_empty_customer_name_400:
  assumes "data ''customer_name'' = Some (PStr '''')"
    and "data ''dish_ids'' = Some ids"
    and "str_join '','' ids = Inr dish_ids_str"
    and "data ''total_price'' = Some price"
  shows "create_order db data f =
           (Inr (PDict [(''error'', PStr ''Customer name and item IDs are required'')], 400),
            db)"
  using assms by (simp add: create_order_def)

text \<open>
  C4. A POST /orders request whose customer_name is the empty string is meant to be
  answered with 400, the rows unchanged. When the body has no dish_ids the handler does
  not reach its check: the subscript of line 162 raises \<^verbatim>\<open>KeyError\<close> out of the
  function, so no 400 is returned (the database is as before).
\<close>

theorem create_order_empty_customer_name_raises:
  assumes "data ''customer_name'' = Some (PStr '''')"
    and "data ''dish_ids'' = None"
  shows "create_order db data f = (Inl (KeyError ''dish_ids''), db)"
  using assms by (simp add: create_order_def)

theorem create_order_empty_customer_name_raises_witness:
  "create_order db_sample [''customer_name'' \<mapsto> PStr ''''] no_faults =
     (Inl (KeyError ''dish_ids''), db_sample)"
  using create_order_empty_customer_name_raises
          [of "[''customer_name'' \<mapsto> PStr '''']" db_sample no_faults]
  by simp

section \<open>Exceptions\<close>

lemma add_menu_item_catches:
  "add_menu_item_try db data f = Inl e \<Longrightarrow>
   add_menu_item db data f = (Inr (PDict [(''error'', PStr (str_exc e))], 400), db)"
  by (simp add: add_menu_item_def)

lemma get_menu_items_catches:
  "get_menu_items_try db f = Inl e \<Longrightarrow>
   get_menu_items db f = (Inr (PDict [(''error'', PStr (str_exc e))], 500), db)"
  by (simp add: get_menu_items_def)

lemma update_menu_item_catches:
  "update_menu_item_try db item_id data f = Inl e \<Longrightarrow>
   update_menu_item db item_id data f =
     (Inr (PDict [(''error'', PStr (str_exc e))], 400), db)"
  by (simp add: update_menu_item_def)

lemma delete_menu_item_catches:
  "delete_menu_item_try db item_id f = Inl e \<Longrightarrow>
   delete_menu_item db item_id f = (Inr (PDict [(''error'', PStr (str_exc e))], 400), db)"
  by (simp add: delete_menu_item_def)

lemma except_Exception_returns: "\<exists>resp. fst (except_Exception status db r) = Inr resp"
  by (cases r) (auto simp: except_Exception_def)

lemma create_order_catches_commit:
  assumes "data ''dish_ids'' = Some ids"
    and "str_join '','' ids = Inr dish_ids_str"
    and "data ''customer_name'' = Some customer_name"
    and "truthy customer_name"
    and "data ''total_price'' = Some price"
    and "commit f (Add_FoodOrder customer_name (PTuple [PStr dish_ids_str]) (PTuple [price])
                     (PStr ''received'')) db = Inl e"
  shows "create_order db data f = (Inr (PDict [(''error'', PStr (str_exc e))], 500), db)"
  using assms by (simp add: create_order_def)

lemma update_order_status_commit_fails:
  assumes "FoodOrder_query_get f db order_id = Inr (Some order)"
    and "commit f (Dirty_FoodOrder (FoodOrder_id order) (dict_get data ''order_status'')) db
           = Inl e"
  shows "update_order_status db order_id data f =
           (Inr (PDict [(''error'', PStr ''Failed to update order status'')], 500), db)"
  using assms by (simp add: update_order_status_def)

text \<open>
  C3. Not every handler turns an exception into an error field that holds its string.
  The four menu handlers do: whatever is raised inside them is caught, they always
  return a response, and its error field is \<^verbatim>\<open>str(e)\<close> (status 400; 500 for the
  list). \<^verbatim>\<open>create_order\<close> does so for an exception of the commit (status 500), and
  \<^verbatim>\<open>update_order_status\<close> catches the exception of the commit but answers with a fixed
  message. What is raised elsewhere in the order handlers is not caught.
\<close>

theorem exceptions_caught:
  "(add_menu_item_try db data1 f1 = Inl e1 \<longrightarrow>
      add_menu_item db data1 f1 = (Inr (PDict [(''error'', PStr (str_exc e1))], 400), db))
   \<and> (get_menu_items_try db f2 = Inl e2 \<longrightarrow>
      get_menu_items db f2 = (Inr (PDict [(''error'', PStr (str_exc e2))], 500), db))
   \<and> (update_menu_item_try db item_id3 data3 f3 = Inl e3 \<longrightarrow>
      update_menu_item db item_id3 data3 f3 =
        (Inr (PDict [(''error'', PStr (str_exc e3))], 400), db))
   \<and> (delete_menu_item_try db item_id4 f4 = Inl e4 \<longrightarrow>
      delete_menu_item db item_id4 f4 =
        (Inr (PDict [(''error'', PStr (str_exc e4))], 400), db))
   \<and> (\<exists>resp. fst (add_menu_item db data1 f1) = Inr resp)
   \<and> (\<exists>resp. fst (get_menu_items db f2) = Inr resp)
   \<and> (\<exists>resp. fst (update_menu_item db item_id3 data3 f3) = Inr resp)
   \<and> (\<exists>resp. fst (delete_menu_item db item_id4 f4) = Inr resp)
   \<and> (data5 ''dish_ids'' = Some ids \<and> str_join '','' ids = Inr dish_ids_str
        \<and> data5 ''customer_name'' = Some customer_name \<and> truthy customer_name
        \<and> data5 ''total_price'' = Some price
        \<and> commit f5 (Add_FoodOrder customer_name (PTuple [PStr dish_ids_str])
                        (PTuple [price]) (PStr ''received'')) db = Inl e5 \<longrightarrow>
      create_order db data5 f5 = (Inr (PDict [(''error'', PStr (str_exc e5))], 500), db))
   \<and> (FoodOrder_query_get f6 db order_id = Inr (Some order)
        \<and> commit f6 (Dirty_FoodOrder (FoodOrder_id order) (dict_get data6 ''order_status''))
              db = Inl e6 \<longrightarrow>
      update_order_status db order_id data6 f6 =
        (Inr (PDict [(''error'', PStr ''Failed to update order status'')], 500), db))"
proof (intro conjI impI)
  show "add_menu_item db data1 f1 = (Inr (PDict [(''error'', PStr (str_exc e1))], 400), db)"
    if "add_menu_item_try db data1 f1 = Inl e1"
    using that by (rule add_menu_item_catches)
  show "get_menu_items db f2 = (Inr (PDict [(''error'', PStr (str_exc e2))], 500), db)"
    if "get_menu_items_try db f2 = Inl e2"
    using that by (rule get_menu_items_catches)
  show "update_menu_item db item_id3 data3 f3 =
          (Inr (PDict [(''error'', PStr (str_exc e3))], 400), db)"
    if "update_menu_item_try db item_id3 data3 f3 = Inl e3"
    using that by (rule update_menu_item_catches)
  show "delete_menu_item db item_id4 f4 =
          (Inr (PDict [(''error'', PStr (str_exc e4))], 400), db)"
    if "delete_menu_item_try db item_id4 f4 = Inl e4"
    using that by (rule delete_menu_item_catches)
  show "\<exists>resp. fst (add_menu_item db data1 f1) = Inr resp"
    unfolding add_menu_item_def by (rule except_Exception_returns)
  show "\<exists>resp. fst (get_menu_items db f2) = Inr resp"
    unfolding get_menu_items_def by (rule except_Exception_returns)
  show "\<exists>resp. fst (update_menu_item db item_id3 data3 f3) = Inr resp"
    unfolding update_menu_item_def by (rule except_Exception_returns)
  show "\<exists>resp. fst (delete_menu_item db item_id4 f4) = Inr resp"
    unfolding delete_menu_item_def by (rule except_Exception_returns)
  show "create_order db data5 f5 = (Inr (PDict [(''error'', PStr (str_exc e5))], 500), db)"
    if "data5 ''dish_ids'' = Some ids \<and> str_join '','' ids = Inr dish_ids_str
        \<and> data5 ''customer_name'' = Some customer_name \<and> truthy customer_name
        \<and> data5 ''total_price'' = Some price
        \<and> commit f5 (Add_FoodOrder customer_name (PTuple [PStr dish_ids_str])
                        (PTuple [price]) (PStr ''received'')) db = Inl e5"
    using that create_order_catches_commit [of data5 ids dish_ids_str customer_name price f5 db e5]
    by blast
  show "update_order_status db order_id data6 f6 =
          (Inr (PDict [(''error'', PStr ''Failed to update order status'')], 500), db)"
    if "FoodOrder_query_get f6 db order_id = Inr (Some order)
        \<and> commit f6 (Dirty_FoodOrder (FoodOrder_id order) (dict_get data6 ''order_status''))
              db = Inl e6"
    using that update_order_status_commit_fails [of f6 db order_id order data6 e6]
    by blast
qed

theorem exceptions_caught_witness:
  "add_menu_item db_sample Map.empty no_faults
     = (Inr (PDict [(''error'', PStr [CHR 0x27, CHR ''n'', CHR ''a'', CHR ''m'', CHR ''e'',
                                       CHR 0x27])], 400), db_sample)
   \<and> get_menu_items db_sample
        \<lparr>query_fault = Some (OperationalError ''server has gone away''), commit_fault = None\<rparr>
     = (Inr (PDict [(''error'', PStr ''server has gone away'')], 500), db_sample)
   \<and> update_menu_item db_sample 1 Map.empty no_faults
     = (Inr (PDict [(''error'', PStr [CHR 0x27, CHR ''n'', CHR ''a'', CHR ''m'', CHR ''e'',
                                       CHR 0x27])], 400), db_sample)
   \<and> delete_menu_item db_sample 1
        \<lparr>query_fault = None, commit_fault = Some (OperationalError ''server has gone away'')\<rparr>
     = (Inr (PDict [(''error'', PStr ''server has gone away'')], 400), db_sample)
   \<and> create_order db_sample
        [''customer_name'' \<mapsto> PStr ''Asha'', ''dish_ids'' \<mapsto> PList [PStr ''1''],
         ''total_price'' \<mapsto> PInt 80]
        \<lparr>query_fault = None, commit_fault = Some (OperationalError ''server has gone away'')\<rparr>
     = (Inr (PDict [(''error'', PStr ''server has gone away'')], 500), db_sample)
   \<and> update_order_status db_sample 1 [''order_status'' \<mapsto> PStr ''ready'']
        \<lparr>query_fault = None, commit_fault = Some (OperationalError ''server has gone away'')\<rparr>
     = (Inr (PDict [(''error'', PStr ''Failed to update order status'')], 500), db_sample)"
proof -
  let ?q = "\<lparr>query_fault = Some (OperationalError ''server has gone away''),
             commit_fault = None\<rparr>"
  let ?c = "\<lparr>query_fault = None,
             commit_fault = Some (OperationalError ''server has gone away'')\<rparr>"
  let ?e = "OperationalError ''server has gone away''"
  let ?d5 = "[''customer_name'' \<mapsto> PStr ''Asha'', ''dish_ids'' \<mapsto> PList [PStr ''1''],
              ''total_price'' \<mapsto> PInt 80]"
  let ?d6 = "[''order_status'' \<mapsto> PStr ''ready'']"
  let ?order = "\<lparr>FoodOrder_id = 1, FoodOrder_customer_name = ''Asha'',
                  FoodOrder_dish_ids = ''1'', FoodOrder_total_price = 80,
                  FoodOrder_order_status = ''received''\<rparr>"
  have h1: "add_menu_item_try db_sample Map.empty no_faults = Inl (KeyError ''name'')"
    by (simp add: add_menu_item_try_def)
  have h2: "get_menu_items_try db_sample ?q = Inl ?e"
    by (simp add: get_menu_items_try_def MenuItem_query_all_def)
  have h3: "update_menu_item_try db_sample 1 Map.empty no_faults = Inl (KeyError ''name'')"
    by (simp add: update_menu_item_try_def)
  have h4: "delete_menu_item_try db_sample 1 ?c = Inl ?e"
    by (simp add: delete_menu_item_try_def MenuItem_query_get_def db_sample_def)
  have h5: "?d5 ''dish_ids'' = Some (PList [PStr ''1''])
            \<and> str_join '','' (PList [PStr ''1'']) = Inr ''1''
            \<and> ?d5 ''customer_name'' = Some (PStr ''Asha'') \<and> truthy (PStr ''Asha'')
            \<and> ?d5 ''total_price'' = Some (PInt 80)
            \<and> commit ?c (Add_FoodOrder (PStr ''Asha'') (PTuple [PStr ''1''])
                            (PTuple [PInt 80]) (PStr ''received'')) db_sample = Inl ?e"
    by (simp add: str_join_def)
  have h6: "FoodOrder_query_get ?c db_sample 1 = Inr (Some ?order)
            \<and> commit ?c (Dirty_FoodOrder (FoodOrder_id ?order) (dict_get ?d6 ''order_status''))
                  db_sample = Inl ?e"
    by (simp add: FoodOrder_query_get_def db_sample_def)
  show ?thesis
    using h1 h2 h3 h4 h5 h6
      exceptions_caught [of db_sample Map.empty no_faults "KeyError ''name''" ?q ?e
        1 Map.empty no_faults "KeyError ''name''" 1 ?c ?e
        ?d5 "PList [PStr ''1'']" "''1''" "PStr ''Asha''" "PInt 80" ?c ?e
        ?c 1 ?order ?d6 ?e]
    by simp
qed

theorem exceptions_caught_counterexample:
  "update_order_status db_sample 1 [''order_status'' \<mapsto> PStr ''ready'']
     \<lparr>query_fault = None, commit_fault = Some (OperationalError ''server has gone away'')\<rparr>
     = (Inr (PDict [(''error'', PStr ''Failed to update order status'')], 500), db_sample)
   \<and> str_exc (OperationalError ''server has gone away'') \<noteq> ''Failed to update order status''
   \<and> get_orders_by_customer db_sample ''Asha''
        \<lparr>query_fault = Some (OperationalError ''server has gone away''), commit_fault = None\<rparr>
     = (Inl (OperationalError ''server has gone away''), db_sample)"
  by (simp add: update_order_status_def get_orders_by_customer_def FoodOrder_query_get_def
        FoodOrder_query_filter_by_def db_sample_def)

section \<open>Menu items\<close>

lemma MenuItem_query_get_absent:
  "query_fault f = None \<Longrightarrow> \<forall>r\<in>set (menu_item_table db). MenuItem_id r \<noteq> item_id \<Longrightarrow>
   MenuItem_query_get f db item_id = Inr None"
  by (simp add: MenuItem_query_get_def find_absent)

lemma MenuItem_query_get_present:
  "query_fault f = None \<Longrightarrow> \<exists>r\<in>set (menu_item_table db). MenuItem_id r = item_id \<Longrightarrow>
   \<exists>r. MenuItem_query_get f db item_id = Inr (Some r) \<and> MenuItem_id r = item_id"
  using find_present [of "menu_item_table db" "\<lambda>r. MenuItem_id r = item_id"]
  by (simp add: MenuItem_query_get_def)

text \<open>The loop of \<^verbatim>\<open>get_menu_items\<close> builds the list of the rows' dictionaries, in order.\<close>

lemma foldl_append_map: "foldl (\<lambda>acc x. acc @ [g x]) acc0 xs = acc0 @ map g xs"
  by (induction xs arbitrary: acc0) simp_all

lemma get_menu_items_lists:
  "query_fault f = None \<Longrightarrow>
   get_menu_items db f = (Inr (PList (map menu_item_dict (menu_item_table db)), 200), db)"
  by (simp add: get_menu_items_def get_menu_items_try_def MenuItem_query_all_def
        foldl_append_map)

text \<open>
  C5. A PUT /menu/update/{id} request with the five keys in its body, for an id that no
  MenuItem row has, is answered with 404 and leaves the database as it was (on a database
  that answers the query).
\<close>

theorem update_menu_item_not_found:
  assumes "data ''name'' = Some name"
    and "data ''description'' = Some description"
    and "data ''price'' = Some price"
    and "data ''availability'' = Some availability"
    and "data ''sold_count'' = Some sold_count"
    and "query_fault f = None"
    and "\<forall>r\<in>set (menu_item_table db). MenuItem_id r \<noteq> item_id"
  shows "update_menu_item db item_id data f =
           (Inr (PDict [(''error'', PStr ''Menu item not found'')], 404), db)"
  using assms
  by (simp add: update_menu_item_def update_menu_item_try_def MenuItem_query_get_absent)

theorem update_menu_item_not_found_witness:
  "update_menu_item db_sample 7
     [''name'' \<mapsto> PStr ''Idli'', ''description'' \<mapsto> PStr ''Steamed'', ''price'' \<mapsto> PFloat 40,
      ''availability'' \<mapsto> PBool True, ''sold_count'' \<mapsto> PInt 0] no_faults =
     (Inr (PDict [(''error'', PStr ''Menu item not found'')], 404), db_sample)"
proof -
  have "\<forall>r\<in>set (menu_item_table db_sample). MenuItem_id r \<noteq> 7"
    by (simp add: db_sample_def)
  then show ?thesis
    using update_menu_item_not_found
            [of "[''name'' \<mapsto> PStr ''Idli'', ''description'' \<mapsto> PStr ''Steamed'',
                  ''price'' \<mapsto> PFloat 40, ''availability'' \<mapsto> PBool True,
                  ''sold_count'' \<mapsto> PInt 0]"
                "PStr ''Idli''" "PStr ''Steamed''" "PFloat 40" "PBool True" "PInt 0"
                no_faults db_sample 7]
    by (simp add: no_faults_def)
qed

text \<open>
  C6. When a MenuItem row has id k, DELETE /menu/delete/{k} is answered with 200 and no
  row with id k remains (the other rows stay); the same request again is answered with
  404 (on a database that answers the queries and accepts the first commit).
\<close>

theorem delete_menu_item_twice:
  assumes "\<exists>r\<in>set (menu_item_table db). MenuItem_id r = k"
    and "query_fault f1 = None" and "commit_fault f1 = None"
    and "query_fault f2 = None"
  shows "fst (delete_menu_item db k f1) =
           Inr (PDict [(''message'', PStr ''Menu item deleted successfully'')], 200)
       \<and> (\<forall>r\<in>set (menu_item_table (snd (delete_menu_item db k f1))). MenuItem_id r \<noteq> k)
       \<and> menu_item_table (snd (delete_menu_item db k f1)) =
           filter (\<lambda>r. MenuItem_id r \<noteq> k) (menu_item_table db)
       \<and> fst (delete_menu_item (snd (delete_menu_item db k f1)) k f2) =
           Inr (PDict [(''error'', PStr ''Menu item not found'')], 404)"
proof -
  define db1 where
    "db1 = db\<lparr>menu_item_table := filter (\<lambda>r. MenuItem_id r \<noteq> k) (menu_item_table db)\<rparr>"
  obtain r where r: "MenuItem_query_get f1 db k = Inr (Some r)" "MenuItem_id r = k"
    using MenuItem_query_get_present [OF assms(2) assms(1)] by blast
  have first: "delete_menu_item db k f1 =
                 (Inr (PDict [(''message'', PStr ''Menu item deleted successfully'')], 200),
                  db1)"
    using r assms(3) by (simp add: delete_menu_item_def delete_menu_item_try_def db1_def)
  have rows: "menu_item_table db1 = filter (\<lambda>r. MenuItem_id r \<noteq> k) (menu_item_table db)"
    by (simp add: db1_def)
  have "\<forall>r\<in>set (menu_item_table db1). MenuItem_id r \<noteq> k"
    by (simp add: rows)
  with assms(4) have "MenuItem_query_get f2 db1 k = Inr None"
    by (rule MenuItem_query_get_absent)
  then have second: "delete_menu_item db1 k f2 =
                       (Inr (PDict [(''error'', PStr ''Menu item not found'')], 404), db1)"
    by (simp add: delete_menu_item_def delete_menu_item_try_def)
  show ?thesis
    by (simp add: first second rows)
qed

theorem delete_menu_item_twice_witness:
  "fst (delete_menu_item db_sample 1 no_faults) =
     Inr (PDict [(''message'', PStr ''Menu item deleted successfully'')], 200)
   \<and> menu_item_table (snd (delete_menu_item db_sample 1 no_faults)) = []
   \<and> fst (delete_menu_item (snd (delete_menu_item db_sample 1 no_faults)) 1 no_faults) =
       Inr (PDict [(''error'', PStr ''Menu item not found'')], 404)"
proof -
  have "\<exists>r\<in>set (menu_item_table db_sample). MenuItem_id r = 1"
    by (simp add: db_sample_def)
  moreover have "filter (\<lambda>r. MenuItem_id r \<noteq> 1) (menu_item_table db_sample) = []"
    by (simp add: db_sample_def)
  ultimately show ?thesis
    using delete_menu_item_twice [of db_sample 1 no_faults no_faults]
    by (simp add: no_faults_def)
qed

text \<open>
  C8. POST /menu/add with the five keys in its body is answered with 201, and a GET /menu
  after it lists an object with the name, description, price, availability and
  sold_count of the request, when the values are of the columns' types: name a string of
  at most 255 characters, description null or a string of at most 500, price a number
  that the \<^verbatim>\<open>Float\<close> column gives back unchanged, availability null or true or
  false, sold_count null or an integer in the range of the column; and when the database
  accepts the write and answers the query. The price is listed as a float (an integer
  comes back as the float of the same value), and a null availability or sold_count as
  the column default \<^verbatim>\<open>True\<close> or \<^verbatim>\<open>0\<close>. (Outside these types the claim fails: a
  theorem below has a null name, the availability \<^verbatim>\<open>"yes"\<close> and a sold_count
  of 2^63 each answered with 400 and nothing added, and the name 7 listed as the string
  \<^verbatim>\<open>"7"\<close>.)
\<close>

theorem add_menu_item_then_listed:
  assumes "data ''name'' = Some (PStr name)" and "length name \<le> 255"
    and "data ''description'' = Some description"
    and "description = PNone \<or> (\<exists>d. description = PStr d \<and> length d \<le> 500)"
    and "data ''price'' = Some price" and "py_number price = Some p"
    and "convert_float (server db) price = Inr (Some p)"
    and "data ''availability'' = Some availability"
    and "availability = PNone \<or> (\<exists>b. availability = PBool b)"
    and "data ''sold_count'' = Some sold_count"
    and "sold_count = PNone \<or> (\<exists>i. sold_count = PInt i \<and> - (2 ^ 31) \<le> i \<and> i < 2 ^ 31)"
    and "commit_fault f = None"
    and "query_fault f' = None"
  shows "fst (add_menu_item db data f) =
           Inr (PDict [(''message'', PStr ''Menu item added successfully'')], 201)
       \<and> (\<exists>items. fst (get_menu_items (snd (add_menu_item db data f)) f') =
                     Inr (PList items, 200)
            \<and> PDict [(''id'', PInt (int (menu_item_auto_increment db))),
                      (''name'', PStr name),
                      (''description'', description),
                      (''price'', PFloat p),
                      (''availability'', column_default (PBool True) availability),
                      (''sold_count'', column_default (PInt 0) sold_count)] \<in> set items)"
proof -
  obtain description_col where d: "bind_string (server db) 500 description = Inr description_col"
      "py_string description_col = description"
    using assms(4) by (auto simp: py_string_def)
  have p: "bind_float (server db) price = Inr (Some p)"
    using assms(6,7) by (cases price) (simp_all add: py_number_def)
  obtain availability_col where a:
      "bind_boolean (server db) (column_default (PBool True) availability) = Inr availability_col"
      "py_boolean availability_col = column_default (PBool True) availability"
    using assms(9) by (auto simp: py_boolean_def column_default_def)
  obtain sold_count_col where c:
      "bind_integer (server db) (column_default (PInt 0) sold_count) = Inr sold_count_col"
      "py_integer sold_count_col = column_default (PInt 0) sold_count"
    using assms(11) by (auto simp: py_integer_def column_default_def)
  let ?row = "\<lparr>MenuItem_id = menu_item_auto_increment db,
               MenuItem_name = name,
               MenuItem_description = description_col,
               MenuItem_price = p,
               MenuItem_availability = availability_col,
               MenuItem_sold_count = sold_count_col\<rparr>"
  have added: "add_menu_item db data f =
                 (Inr (PDict [(''message'', PStr ''Menu item added successfully'')], 201),
                  db\<lparr>menu_item_table := menu_item_table db @ [?row],
                     menu_item_auto_increment := Suc (menu_item_auto_increment db)\<rparr>)"
    using assms(1,2,3,5,8,10,12) d(1) p a(1) c(1)
    by (simp add: add_menu_item_def add_menu_item_try_def)
  have "menu_item_dict ?row \<in>
          set (map menu_item_dict (menu_item_table (snd (add_menu_item db data f))))"
    by (simp add: added)
  then show ?thesis
    using get_menu_items_lists [OF assms(13), of "snd (add_menu_item db data f)"] d(2) a(2) c(2)
    by (simp add: added menu_item_dict_def)
qed

theorem add_menu_item_then_listed_witness:
  "fst (add_menu_item db_empty
          [''name'' \<mapsto> PStr ''Idli'', ''description'' \<mapsto> PStr ''Steamed'',
           ''price'' \<mapsto> PInt 40, ''availability'' \<mapsto> PNone, ''sold_count'' \<mapsto> PInt 5]
          no_faults) =
     Inr (PDict [(''message'', PStr ''Menu item added successfully'')], 201)
   \<and> (\<exists>items. fst (get_menu_items
                      (snd (add_menu_item db_empty
                              [''name'' \<mapsto> PStr ''Idli'', ''description'' \<mapsto> PStr ''Steamed'',
                               ''price'' \<mapsto> PInt 40, ''availability'' \<mapsto> PNone,
                               ''sold_count'' \<mapsto> PInt 5]
                              no_faults))
                      no_faults) = Inr (PList items, 200)
        \<and> PDict [(''id'', PInt 1), (''name'', PStr ''Idli''),
                  (''description'', PStr ''Steamed''), (''price'', PFloat 40),
                  (''availability'', PBool True), (''sold_count'', PInt 5)] \<in> set items)"
  using add_menu_item_then_listed
          [of "[''name'' \<mapsto> PStr ''Idli'', ''description'' \<mapsto> PStr ''Steamed'',
                ''price'' \<mapsto> PInt 40, ''availability'' \<mapsto> PNone, ''sold_count'' \<mapsto> PInt 5]"
              "''Idli''" "PStr ''Steamed''" "PInt 40" 40 db_empty PNone "PInt 5"
              no_faults no_faults]
  by (simp add: no_faults_def column_default_def py_number_def db_empty_def
        sample_server_def)

lemma add_menu_item_refused:
  assumes "add_menu_item_try db data f = Inl e"
  shows "status_code (add_menu_item db data f) = Some 400"
    and "snd (add_menu_item db data f) = db"
  using assms by (simp_all add: add_menu_item_def status_code_def)

theorem add_menu_item_then_listed_counterexample:
  "status_code (add_menu_item db_empty
     [''name'' \<mapsto> PNone, ''description'' \<mapsto> PStr ''Steamed'', ''price'' \<mapsto> PFloat 40,
      ''availability'' \<mapsto> PBool True, ''sold_count'' \<mapsto> PInt 5] no_faults) = Some 400
   \<and> snd (add_menu_item db_empty
     [''name'' \<mapsto> PNone, ''description'' \<mapsto> PStr ''Steamed'', ''price'' \<mapsto> PFloat 40,
      ''availability'' \<mapsto> PBool True, ''sold_count'' \<mapsto> PInt 5] no_faults) = db_empty
   \<and> status_code (add_menu_item db_empty
     [''name'' \<mapsto> PStr ''Idli'', ''description'' \<mapsto> PStr ''Steamed'', ''price'' \<mapsto> PFloat 40,
      ''availability'' \<mapsto> PStr ''yes'', ''sold_count'' \<mapsto> PInt 5] no_faults) = Some 400
   \<and> snd (add_menu_item db_empty
     [''name'' \<mapsto> PStr ''Idli'', ''description'' \<mapsto> PStr ''Steamed'', ''price'' \<mapsto> PFloat 40,
      ''availability'' \<mapsto> PStr ''yes'', ''sold_count'' \<mapsto> PInt 5] no_faults) = db_empty
   \<and> status_code (add_menu_item db_empty
     [''name'' \<mapsto> PStr ''Idli'', ''description'' \<mapsto> PStr ''Steamed'', ''price'' \<mapsto> PFloat 40,
      ''availability'' \<mapsto> PBool True, ''sold_count'' \<mapsto> PInt (2 ^ 63)] no_faults) = Some 400
   \<and> snd (add_menu_item db_empty
     [''name'' \<mapsto> PStr ''Idli'', ''description'' \<mapsto> PStr ''Steamed'', ''price'' \<mapsto> PFloat 40,
      ''availability'' \<mapsto> PBool True, ''sold_count'' \<mapsto> PInt (2 ^ 63)] no_faults) = db_empty
   \<and> status_code (add_menu_item db_empty
     [''name'' \<mapsto> PInt 7, ''description'' \<mapsto> PStr ''Steamed'', ''price'' \<mapsto> PFloat 40,
      ''availability'' \<mapsto> PBool True, ''sold_count'' \<mapsto> PInt 5] no_faults) = Some 201
   \<and> fst (get_menu_items
          (snd (add_menu_item db_empty
             [''name'' \<mapsto> PInt 7, ''description'' \<mapsto> PStr ''Steamed'', ''price'' \<mapsto> PFloat 40,
              ''availability'' \<mapsto> PBool True, ''sold_count'' \<mapsto> PInt 5] no_faults))
          no_faults)
     = Inr (PList [PDict [(''id'', PInt 1), (''name'', PStr ''7''),
                          (''description'', PStr ''Steamed''), (''price'', PFloat 40),
                          (''availability'', PBool True), (''sold_count'', PInt 5)]], 200)
   \<and> PStr ''7'' \<noteq> PInt 7"
proof -
  let ?null = "[''name'' \<mapsto> PNone, ''description'' \<mapsto> PStr ''Steamed'',
                ''price'' \<mapsto> PFloat 40, ''availability'' \<mapsto> PBool True,
                ''sold_count'' \<mapsto> PInt 5]"
  let ?yes = "[''name'' \<mapsto> PStr ''Idli'', ''description'' \<mapsto> PStr ''Steamed'',
               ''price'' \<mapsto> PFloat 40, ''availability'' \<mapsto> PStr ''yes'',
               ''sold_count'' \<mapsto> PInt 5]"
  let ?big = "[''name'' \<mapsto> PStr ''Idli'', ''description'' \<mapsto> PStr ''Steamed'',
               ''price'' \<mapsto> PFloat 40, ''availability'' \<mapsto> PBool True,
               ''sold_count'' \<mapsto> PInt (2 ^ 63)]"
  let ?seven = "[''name'' \<mapsto> PInt 7, ''description'' \<mapsto> PStr ''Steamed'',
                 ''price'' \<mapsto> PFloat 40, ''availability'' \<mapsto> PBool True,
                 ''sold_count'' \<mapsto> PInt 5]"
  have sv: "server db_empty = sample_server"
    by (simp add: db_empty_def)
  have conv: "convert_float sample_server (PFloat 40) = Inr (Some 40)"
      "convert_boolean sample_server (PStr ''yes'') = Inl (TypeError ''Not a boolean value'')"
      "convert_integer sample_server (PInt 9223372036854775808) =
         Inl (OperationalError ''Out of range value'')"
      "convert_string sample_server 255 (PInt 7) = Inr (Some ''7'')"
    by (simp_all add: sample_server_def show_int_def)
  have "\<exists>e. add_menu_item_try db_empty ?null no_faults = Inl e"
    by (simp add: add_menu_item_try_def no_faults_def)
  then have n: "status_code (add_menu_item db_empty ?null no_faults) = Some 400"
      "snd (add_menu_item db_empty ?null no_faults) = db_empty"
    using add_menu_item_refused by blast+
  have "\<exists>e. add_menu_item_try db_empty ?yes no_faults = Inl e"
    by (simp add: add_menu_item_try_def no_faults_def column_default_def sv conv)
  then have y: "status_code (add_menu_item db_empty ?yes no_faults) = Some 400"
      "snd (add_menu_item db_empty ?yes no_faults) = db_empty"
    using add_menu_item_refused by blast+
  have "\<exists>e. add_menu_item_try db_empty ?big no_faults = Inl e"
    by (simp add: add_menu_item_try_def no_faults_def column_default_def sv conv)
  then have b: "status_code (add_menu_item db_empty ?big no_faults) = Some 400"
      "snd (add_menu_item db_empty ?big no_faults) = db_empty"
    using add_menu_item_refused by blast+
  have added: "add_menu_item db_empty ?seven no_faults =
      (Inr (PDict [(''message'', PStr ''Menu item added successfully'')], 201),
       db_empty\<lparr>menu_item_table :=
                    [\<lparr>MenuItem_id = 1, MenuItem_name = ''7'',
                      MenuItem_description = Some ''Steamed'', MenuItem_price = 40,
                      MenuItem_availability = Some True, MenuItem_sold_count = Some 5\<rparr>],
                  menu_item_auto_increment := 2\<rparr>)"
    by (simp add: add_menu_item_def add_menu_item_try_def no_faults_def column_default_def
          sv conv)
       (simp add: db_empty_def)
  have q: "query_fault no_faults = None"
    by (simp add: no_faults_def)
  have s: "status_code (add_menu_item db_empty ?seven no_faults) = Some 201"
    by (simp add: added status_code_def)
  have l: "fst (get_menu_items (snd (add_menu_item db_empty ?seven no_faults)) no_faults)
     = Inr (PList [PDict [(''id'', PInt 1), (''name'', PStr ''7''),
                          (''description'', PStr ''Steamed''), (''price'', PFloat 40),
                          (''availability'', PBool True), (''sold_count'', PInt 5)]], 200)"
    by (simp add: added get_menu_items_lists [OF q] menu_item_dict_def py_string_def
          py_boolean_def py_integer_def)
  show ?thesis
    using n y b s l by simp
qed

section \<open>Updating and reading orders\<close>







text \<open>
  C9. GET /orders/customer/{name}, on a database that answers the query. The rows that
  match are those whose customer_name the server's collation takes as equal to the name
  in the path. When there is none the answer is 200 with a body whose only key is message;
  otherwise it is 200 with the matching rows under the key orders, in table order, each
  as an object with exactly the keys id, customer_name and order_status, holding the
  row's values. (Equal is not the same string: under a collation that ignores the case
  of letters, as the default ones of MySQL do, a theorem below has the
  request for \<^verbatim>\<open>asha\<close> answered with the order of \<^verbatim>\<open>Asha\<close>.)
\<close>

theorem get_orders_by_customer_cases:
  assumes "query_fault f = None"
  shows "((\<forall>r\<in>set (food_order_table db).
              \<not> collation (server db) (FoodOrder_customer_name r) customer_name) \<longrightarrow>
            get_orders_by_customer db customer_name f =
              (Inr (PDict [(''message'', PStr ''No orders found for this customer'')], 200),
               db))
       \<and> ((\<exists>r\<in>set (food_order_table db).
              collation (server db) (FoodOrder_customer_name r) customer_name) \<longrightarrow>
            get_orders_by_customer db customer_name f =
              (Inr (PDict [(''orders'',
                      PList (map (\<lambda>order.
                                    PDict [(''id'', PInt (int (FoodOrder_id order))),
                                           (''customer_name'',
                                            PStr (FoodOrder_customer_name order)),
                                           (''order_status'',
                                            PStr (FoodOrder_order_status order))])
                               (filter (\<lambda>r. collation (server db)
                                               (FoodOrder_customer_name r) customer_name)
                                  (food_order_table db))))], 200),
               db))"
proof (intro conjI impI)
  assume "\<forall>r\<in>set (food_order_table db).
            \<not> collation (server db) (FoodOrder_customer_name r) customer_name"
  then have "filter (\<lambda>r. collation (server db) (FoodOrder_customer_name r) customer_name)
               (food_order_table db) = []"
    by (simp add: filter_empty_conv)
  with assms show "get_orders_by_customer db customer_name f =
      (Inr (PDict [(''message'', PStr ''No orders found for this customer'')], 200), db)"
    by (simp add: get_orders_by_customer_def FoodOrder_query_filter_by_def)
next
  assume "\<exists>r\<in>set (food_order_table db).
            collation (server db) (FoodOrder_customer_name r) customer_name"
  then have "filter (\<lambda>r. collation (server db) (FoodOrder_customer_name r) customer_name)
               (food_order_table db) \<noteq> []"
    by (simp add: filter_empty_conv)
  with assms show "get_orders_by_customer db customer_name f =
      (Inr (PDict [(''orders'',
              PList (map (\<lambda>order.
                            PDict [(''id'', PInt (int (FoodOrder_id order))),
                                   (''customer_name'', PStr (FoodOrder_customer_name order)),
                                   (''order_status'', PStr (FoodOrder_order_status order))])
                       (filter (\<lambda>r. collation (server db)
                                       (FoodOrder_customer_name r) customer_name)
                          (food_order_table db))))], 200),
       db)"
    by (simp add: get_orders_by_customer_def FoodOrder_query_filter_by_def order_dict_def)
qed

lemma sample_collation:
  "collation (server db_sample) ''Asha'' ''Asha''"
  "collation (server db_sample) ''Asha'' ''asha''"
  "\<not> collation (server db_sample) ''Asha'' ''Ravi''"
  by (simp_all add: db_sample_def sample_server_def ascii_lower_def)

theorem get_orders_by_customer_cases_witness:
  "get_orders_by_customer db_sample ''Ravi'' no_faults =
     (Inr (PDict [(''message'', PStr ''No orders found for this customer'')], 200), db_sample)
   \<and> get_orders_by_customer db_sample ''Asha'' no_faults =
     (Inr (PDict [(''orders'',
             PList [PDict [(''id'', PInt 1), (''customer_name'', PStr ''Asha''),
                           (''order_status'', PStr ''received'')]])], 200),
      db_sample)"
proof -
  have table: "food_order_table db_sample =
                 [\<lparr>FoodOrder_id = 1, FoodOrder_customer_name = ''Asha'',
                   FoodOrder_dish_ids = ''1'', FoodOrder_total_price = 80,
                   FoodOrder_order_status = ''received''\<rparr>]"
    by (simp add: db_sample_def)
  have "get_orders_by_customer db_sample ''Ravi'' no_faults =
     (Inr (PDict [(''message'', PStr ''No orders found for this customer'')], 200), db_sample)"
    using get_orders_by_customer_cases [of no_faults db_sample "''Ravi''"]
    by (simp add: no_faults_def table sample_collation)
  moreover have "get_orders_by_customer db_sample ''Asha'' no_faults =
     (Inr (PDict [(''orders'',
             PList [PDict [(''id'', PInt 1), (''customer_name'', PStr ''Asha''),
                           (''order_status'', PStr ''received'')]])], 200),
      db_sample)"
    using get_orders_by_customer_cases [of no_faults db_sample "''Asha''"]
    by (simp add: no_faults_def table sample_collation)
  ultimately show ?thesis by simp
qed

theorem get_orders_by_customer_cases_counterexample:
  "get_orders_by_customer db_sample ''asha'' no_faults =
     (Inr (PDict [(''orders'',
             PList [PDict [(''id'', PInt 1), (''customer_name'', PStr ''Asha''),
                           (''order_status'', PStr ''received'')]])], 200),
      db_sample)
   \<and> map FoodOrder_customer_name (food_order_table db_sample) = [''Asha'']
   \<and> ''Asha'' \<noteq> ''asha''"
proof -
  have table: "food_order_table db_sample =
                 [\<lparr>FoodOrder_id = 1, FoodOrder_customer_name = ''Asha'',
                   FoodOrder_dish_ids = ''1'', FoodOrder_total_price = 80,
                   FoodOrder_order_status = ''received''\<rparr>]"
    by (simp add: db_sample_def)
  show ?thesis
    by (simp add: get_orders_by_customer_def FoodOrder_query_filter_by_def order_dict_def
          no_faults_def table sample_collation)
qed

text \<open>
  C10. GET /menu, GET /orders/customer/{name} and GET /orders/status/{status} leave the
  database as it was, whatever they answer and whether or not the query fails.
\<close>

theorem read_handlers_keep_database:
  "snd (get_menu_items db f) = db
   \<and> snd (get_orders_by_customer db customer_name f) = db
   \<and> snd (get_orders_by_status db order_status f) = db"
proof (intro conjI)
  show "snd (get_menu_items db f) = db"
    by (cases "MenuItem_query_all f db")
       (simp_all add: get_menu_items_def get_menu_items_try_def)
  show "snd (get_orders_by_customer db customer_name f) = db"
    by (cases "FoodOrder_query_filter_by f db FoodOrder_customer_name customer_name")
       (simp_all add: get_orders_by_customer_def)
  show "snd (get_orders_by_status db order_status f) = db"
  proof (cases order_status)
    case None
    then show ?thesis
      by (cases "FoodOrder_query_all f db") (simp_all add: get_orders_by_status_def)
  next
    case (Some s)
    then show ?thesis
      by (cases "FoodOrder_query_filter_by f db FoodOrder_order_status s")
         (simp_all add: get_orders_by_status_def)
  qed
qed

end
